theory Spec2Isabelle
  imports Complex_Main "HOL-Library.AList"
begin

section \<open>Conventions of the embedding\<close>

text \<open>
  The service is \<^verbatim>\<open>services/AI-RPS-limiter/main.py\<close>. Its module-level constants are read
  from the environment once, at import time; they are collected in the record \<open>env\<close>, and
  every function that reads a constant takes the record as its first argument.

  Python \<^verbatim>\<open>float\<close> values are modelled as \<open>real\<close>: arithmetic is exact and every value is
  finite. Python \<^verbatim>\<open>int\<close> is \<open>int\<close>. A timezone-aware \<^verbatim>\<open>datetime\<close> is the number of
  microseconds since the epoch, a \<^verbatim>\<open>timedelta\<close> a number of microseconds. Exceptions are
  values of \<open>py_error\<close> on the left of a sum.
\<close>

datatype py_error = IndexError | ZeroDivisionError | ValueError | OverflowError | TypeError

record env =
  HISTORY_WINDOW_SECONDS :: int
  MAX_HISTORY_POINTS :: int
  MIN_HISTORY_POINTS :: int
  FORECAST_SECONDS :: int
  FALLBACK_WINDOW_POINTS :: int
  MIN_CHANGE_INTERVAL_SECONDS :: int
  MIN_RELATIVE_CHANGE :: real
  INCREASE_THRESHOLD :: real
  DECREASE_THRESHOLD :: real
  INCREASE_HEADROOM :: real
  DECREASE_FACTOR :: real
  MIN_RPS :: real
  MAX_RPS :: real
  REJECTED_RATE_THRESHOLD :: real
  LATENCY_P95_THRESHOLD :: real
  ERRORS_5XX_THRESHOLD :: int
  DDOS_MULTIPLIER :: real
  DEFAULT_WINDOW_SECONDS :: int
  TOKEN_CAPACITY_SECONDS :: real
  MAX_CAPACITY :: int
  ALLOW_ALGO_SWITCH :: bool
  MIN_ALGO_SWITCH_INTERVAL_SECONDS :: int
  BURSTINESS_THRESHOLD :: real
  BURSTINESS_POINTS :: int

text \<open>The defaults of the \<^verbatim>\<open>os.getenv\<close> calls.\<close>

definition default_env :: env where
  "default_env = \<lparr>
     HISTORY_WINDOW_SECONDS = 3600,
     MAX_HISTORY_POINTS = 5000,
     MIN_HISTORY_POINTS = 10,
     FORECAST_SECONDS = 60,
     FALLBACK_WINDOW_POINTS = 5,
     MIN_CHANGE_INTERVAL_SECONDS = 30,
     MIN_RELATIVE_CHANGE = 1 / 10,
     INCREASE_THRESHOLD = 1 / 10,
     DECREASE_THRESHOLD = 2 / 10,
     INCREASE_HEADROOM = 5 / 100,
     DECREASE_FACTOR = 7 / 10,
     MIN_RPS = 1,
     MAX_RPS = 10000,
     REJECTED_RATE_THRESHOLD = 1 / 10,
     LATENCY_P95_THRESHOLD = 1,
     ERRORS_5XX_THRESHOLD = 1,
     DDOS_MULTIPLIER = 2,
     DEFAULT_WINDOW_SECONDS = 60,
     TOKEN_CAPACITY_SECONDS = 2,
     MAX_CAPACITY = 0,
     ALLOW_ALGO_SWITCH = False,
     MIN_ALGO_SWITCH_INTERVAL_SECONDS = 300,
     BURSTINESS_THRESHOLD = 15 / 10,
     BURSTINESS_POINTS = 10 \<rparr>"

type_synonym datetime = int
type_synonym timedelta = int

definition timedelta_seconds :: "int \<Rightarrow> timedelta" where
  "timedelta_seconds s = s * 1000000"

definition total_seconds :: "timedelta \<Rightarrow> real" where
  "total_seconds d = real_of_int d / 1000000"

section \<open>The time-series buffer\<close>

record TimePoint =
  ts :: datetime
  rps :: real

record DataCollector =
  window_seconds :: int
  max_points :: int
  points :: "TimePoint list"

definition DataCollector_init :: "int \<Rightarrow> int \<Rightarrow> DataCollector" where
  "DataCollector_init w m = \<lparr>window_seconds = max 1 w, max_points = max 2 m, points = []\<rparr>"

text \<open>The first loop of \<^verbatim>\<open>_trim\<close>: pop from the left while the head is older than the cutoff.\<close>

fun trim_age :: "datetime \<Rightarrow> TimePoint list \<Rightarrow> TimePoint list" where
  "trim_age cutoff [] = []"
| "trim_age cutoff (p # ps) = (if ts p < cutoff then trim_age cutoff ps else p # ps)"

text \<open>
  The second loop: pop from the left while there are more than \<open>m\<close> points.
  \<^verbatim>\<open>popleft\<close> on an empty deque raises IndexError, which a negative \<open>m\<close> would reach.
\<close>

fun trim_count :: "int \<Rightarrow> TimePoint list \<Rightarrow> py_error + TimePoint list" where
  "trim_count m [] = (if m < 0 then Inl IndexError else Inr [])"
| "trim_count m (p # ps) =
     (if m < int (length (p # ps)) then trim_count m ps else Inr (p # ps))"

definition trim :: "DataCollector \<Rightarrow> py_error + DataCollector" where
  "trim c =
     (if points c = [] then Inr c
      else
        let cutoff = ts (last (points c)) - timedelta_seconds (window_seconds c) in
        case trim_count (max_points c) (trim_age cutoff (points c)) of
          Inl e \<Rightarrow> Inl e
        | Inr ps \<Rightarrow> Inr (c\<lparr>points := ps\<rparr>))"

definition add_point :: "DataCollector \<Rightarrow> datetime \<Rightarrow> real \<Rightarrow> py_error + DataCollector" where
  "add_point c t r =
     (let t' = (if points c \<noteq> [] \<and> t \<le> ts (last (points c))
                then ts (last (points c)) + 1 else t)
      in trim (c\<lparr>points := points c @ [\<lparr>ts = t', rps = r\<rparr>]\<rparr>))"

definition snapshot :: "DataCollector \<Rightarrow> TimePoint list" where
  "snapshot c = points c"

text \<open>The module-level \<^verbatim>\<open>collector\<close>.\<close>

definition collector :: "env \<Rightarrow> DataCollector" where
  "collector e = DataCollector_init (HISTORY_WINDOW_SECONDS e) (MAX_HISTORY_POINTS e)"

text \<open>A sequence of \<^verbatim>\<open>add_point\<close> calls, stopping at the first exception.\<close>

fun add_points :: "DataCollector \<Rightarrow> (datetime \<times> real) list \<Rightarrow> py_error + DataCollector" where
  "add_points c [] = Inr c"
| "add_points c ((t, r) # xs) =
     (case add_point c t r of Inl e \<Rightarrow> Inl e | Inr c' \<Rightarrow> add_points c' xs)"

text \<open>Newest minus oldest timestamp of a buffer, zero for the empty one.\<close>

definition span :: "TimePoint list \<Rightarrow> timedelta" where
  "span ps = (case ps of [] \<Rightarrow> 0 | p # _ \<Rightarrow> ts (last ps) - ts p)"

definition increasing :: "TimePoint list \<Rightarrow> bool" where
  "increasing ps = sorted_wrt (<) (map ts ps)"


section \<open>Python helpers\<close>

text \<open>\<^verbatim>\<open>int(x)\<close> on a float truncates towards zero.\<close>

definition py_int :: "real \<Rightarrow> int" where
  "py_int x = (if 0 \<le> x then \<lfloor>x\<rfloor> else \<lceil>x\<rceil>)"

text \<open>\<^verbatim>\<open>round(x, 3)\<close>: the nearest multiple of one thousandth, an exact tie going to the even one.\<close>

definition round_half_even :: "real \<Rightarrow> int" where
  "round_half_even y =
     (let f = \<lfloor>y\<rfloor>; d = y - real_of_int f in
      if d < 1 / 2 then f else if 1 / 2 < d then f + 1 else if even f then f else f + 1)"

definition py_round3 :: "real \<Rightarrow> real" where
  "py_round3 x = real_of_int (round_half_even (x * 1000)) / 1000"

text \<open>\<^verbatim>\<open>xs[i:]\<close> for an integer \<open>i\<close>: a negative start counts from the end, and is clipped.\<close>

definition py_slice_from :: "int \<Rightarrow> 'a list \<Rightarrow> 'a list" where
  "py_slice_from i xs =
     (if i < 0 then drop (nat (max 0 (int (length xs) + i))) xs else drop (nat i) xs)"

text \<open>\<^verbatim>\<open>math.isfinite\<close>: every \<open>real\<close> is finite.\<close>

definition isfinite :: "real \<Rightarrow> bool" where
  "isfinite x = True"

definition clamp :: "real \<Rightarrow> real \<Rightarrow> real option \<Rightarrow> real" where
  "clamp v minimum maximum =
     (case maximum of None \<Rightarrow> max minimum v | Some m \<Rightarrow> max minimum (min v m))"

text \<open>The recurring \<^verbatim>\<open>max_rps = MAX_RPS if MAX_RPS > 0 else None\<close>.\<close>

definition max_rps :: "env \<Rightarrow> real option" where
  "max_rps e = (if 0 < MAX_RPS e then Some (MAX_RPS e) else None)"

section \<open>Configurations and responses\<close>

record LimitConfigIn =
  algorithm :: string
  limit :: "real option"
  window :: "int option"
  capacity :: "int option"
  fillRate :: "real option"

text \<open>
  The \<^verbatim>\<open>Field\<close> bounds of \<^verbatim>\<open>LimitConfigIn\<close>, which pydantic has checked on every value
  parsed from a request: \<^verbatim>\<open>limit >= 0\<close>, \<^verbatim>\<open>window > 0\<close>, \<^verbatim>\<open>capacity >= 0\<close>, \<^verbatim>\<open>fillRate >= 0\<close>.
\<close>

definition LimitConfigIn_fields :: "LimitConfigIn \<Rightarrow> bool" where
  "LimitConfigIn_fields c \<longleftrightarrow>
     (case limit c of None \<Rightarrow> True | Some l \<Rightarrow> 0 \<le> l) \<and>
     (case window c of None \<Rightarrow> True | Some w \<Rightarrow> 0 < w) \<and>
     (case capacity c of None \<Rightarrow> True | Some k \<Rightarrow> 0 \<le> k) \<and>
     (case fillRate c of None \<Rightarrow> True | Some f \<Rightarrow> 0 \<le> f)"

text \<open>\<^verbatim>\<open>LimitConfigResponse\<close>; its fields carry the suffix \<open>_r\<close> where the name is taken.\<close>

record LimitConfigResponse =
  algorithm_r :: string
  limit_r :: "int option"
  window_r :: "int option"
  capacity_r :: "int option"
  fillRate_r :: "real option"
  predictedRps :: "real option"
  validFor :: "int option"

text \<open>A response read back as a \<^verbatim>\<open>LimitConfigIn\<close>: the extra fields are ignored.\<close>

definition as_incoming :: "LimitConfigResponse \<Rightarrow> LimitConfigIn" where
  "as_incoming r = \<lparr>algorithm = algorithm_r r, limit = map_option real_of_int (limit_r r),
     window = window_r r, capacity = capacity_r r, fillRate = fillRate_r r\<rparr>"

definition ALLOWED_ALGORITHMS :: "string set" where
  "ALLOWED_ALGORITHMS = {''fixed'', ''sliding'', ''token''}"

definition fixed_or_sliding :: "string \<Rightarrow> bool" where
  "fixed_or_sliding a \<longleftrightarrow> a = ''fixed'' \<or> a = ''sliding''"

definition validate_current_config :: "LimitConfigIn \<Rightarrow> string option" where
  "validate_current_config config =
     (if algorithm config \<notin> ALLOWED_ALGORITHMS then Some ''Unsupported algorithm''
      else if fixed_or_sliding (algorithm config) then
        (case (limit config, window config) of
           (Some l, Some w) \<Rightarrow>
             if l \<le> 0 \<or> w \<le> 0 then Some ''limit/window must be positive'' else None
         | _ \<Rightarrow> Some ''limit and window are required for fixed/sliding'')
      else if algorithm config = ''token'' then
        (case (capacity config, fillRate config) of
           (Some k, Some f) \<Rightarrow>
             if k \<le> 0 \<or> f \<le> 0 then Some ''capacity/fillRate must be positive'' else None
         | _ \<Rightarrow> Some ''capacity and fillRate are required for token'')
      else None)"

definition keep_current_response ::
    "env \<Rightarrow> LimitConfigIn \<Rightarrow> real option \<Rightarrow> LimitConfigResponse" where
  "keep_current_response e config predicted_rps =
     \<lparr>algorithm_r = algorithm config,
      limit_r = map_option py_int (limit config),
      window_r = window config,
      capacity_r = capacity config,
      fillRate_r = fillRate config,
      predictedRps = predicted_rps,
      validFor = Some (FORECAST_SECONDS e)\<rparr>"

definition default_fallback_config :: "env \<Rightarrow> LimitConfigIn" where
  "default_fallback_config e =
     (let window0 = max 1 (DEFAULT_WINDOW_SECONDS e);
          limit0 = max 1 \<lceil>MIN_RPS e * real_of_int window0\<rceil> in
      case max_rps e of
        None \<Rightarrow> \<lparr>algorithm = ''fixed'', limit = Some (real_of_int limit0),
                  window = Some window0, capacity = None, fillRate = None\<rparr>
      | Some mx \<Rightarrow>
          let max_limit0 = \<lfloor>mx * real_of_int window0\<rfloor>;
              window1 = (if max_limit0 < 1 then max window0 \<lceil>1 / mx\<rceil> else window0);
              max_limit1 = (if max_limit0 < 1 then \<lfloor>mx * real_of_int window1\<rfloor> else max_limit0);
              limit1 = (if 1 \<le> max_limit1 then min limit0 max_limit1 else limit0);
              limit2 = max 1 limit1
          in \<lparr>algorithm = ''fixed'', limit = Some (real_of_int limit2),
               window = Some window1, capacity = None, fillRate = None\<rparr>)"

text \<open>
  \<^verbatim>\<open>current_rps_limit\<close>: \<^verbatim>\<open>float(None)\<close> raises TypeError and a zero window
  ZeroDivisionError; neither happens on a validated configuration.
\<close>

definition current_rps_limit :: "LimitConfigIn \<Rightarrow> py_error + real" where
  "current_rps_limit config =
     (if fixed_or_sliding (algorithm config) then
        (case (limit config, window config) of
           (Some l, Some w) \<Rightarrow>
             if w = 0 then Inl ZeroDivisionError else Inr (l / real_of_int w)
         | _ \<Rightarrow> Inl TypeError)
      else (case fillRate config of Some f \<Rightarrow> Inr f | None \<Rightarrow> Inl TypeError))"

text \<open>\<^verbatim>\<open>max(sample)\<close> of a non-empty list.\<close>

definition py_max :: "real list \<Rightarrow> real" where
  "py_max xs = fold max (tl xs) (hd xs)"

definition is_bursty :: "env \<Rightarrow> TimePoint list \<Rightarrow> py_error + bool" where
  "is_bursty e pts =
     (if int (length pts) < max 2 (BURSTINESS_POINTS e) then Inr False
      else
        let sample = map rps (py_slice_from (- BURSTINESS_POINTS e) pts) in
        if sample = [] then Inl ZeroDivisionError
        else
          let mean = sum_list sample / real (length sample) in
          if mean \<le> 0 then Inr False
          else Inr (BURSTINESS_THRESHOLD e \<le> py_max sample / mean))"

definition build_response ::
    "env \<Rightarrow> string \<Rightarrow> real \<Rightarrow> LimitConfigIn \<Rightarrow> real option \<Rightarrow> LimitConfigResponse" where
  "build_response e algo target_rps current_config predicted_rps =
     (if fixed_or_sliding algo then
        let w = (case window current_config of
                   None \<Rightarrow> DEFAULT_WINDOW_SECONDS e
                 | Some w0 \<Rightarrow> if w0 = 0 then DEFAULT_WINDOW_SECONDS e else w0);
            limit0 = \<lceil>target_rps * real_of_int w\<rceil>;
            min_limit = \<lceil>MIN_RPS e * real_of_int w\<rceil>;
            limit1 = max limit0 min_limit;
            limit2 = (case max_rps e of
                        None \<Rightarrow> limit1
                      | Some mx \<Rightarrow> min limit1 \<lfloor>mx * real_of_int w\<rfloor>)
        in \<lparr>algorithm_r = algo, limit_r = Some limit2, window_r = Some w,
             capacity_r = None, fillRate_r = None,
             predictedRps = predicted_rps, validFor = Some (FORECAST_SECONDS e)\<rparr>
      else
        let fill_rate = clamp target_rps (MIN_RPS e) (max_rps e);
            capacity0 = \<lceil>fill_rate * TOKEN_CAPACITY_SECONDS e\<rceil>;
            capacity1 = max capacity0 \<lceil>MIN_RPS e * TOKEN_CAPACITY_SECONDS e\<rceil>;
            capacity2 = (if real_of_int capacity1 < fill_rate then \<lceil>fill_rate\<rceil> else capacity1);
            capacity3 = (if 0 < MAX_CAPACITY e then min capacity2 (MAX_CAPACITY e) else capacity2)
        in \<lparr>algorithm_r = algo, limit_r = None, window_r = None,
             capacity_r = Some capacity3, fillRate_r = Some (py_round3 fill_rate),
             predictedRps = predicted_rps, validFor = Some (FORECAST_SECONDS e)\<rparr>)"

text \<open>
  \<^verbatim>\<open>configs_equal\<close>. \<^verbatim>\<open>int(None)\<close> and \<^verbatim>\<open>float(None)\<close> raise TypeError; \<^verbatim>\<open>and\<close> does not
  evaluate its right operand when the left one is false.
\<close>

definition configs_equal :: "LimitConfigIn \<Rightarrow> LimitConfigResponse \<Rightarrow> py_error + bool" where
  "configs_equal current recommended =
     (if algorithm current \<noteq> algorithm_r recommended then Inr False
      else if fixed_or_sliding (algorithm current) then
        (case limit current of
           None \<Rightarrow> Inl TypeError
         | Some l \<Rightarrow>
             if Some (py_int l) \<noteq> limit_r recommended then Inr False
             else (case window current of
                     None \<Rightarrow> Inl TypeError
                   | Some w \<Rightarrow> Inr (Some w = window_r recommended)))
      else
        (case capacity current of
           None \<Rightarrow> Inl TypeError
         | Some k \<Rightarrow>
             if Some k \<noteq> capacity_r recommended then Inr False
             else (case fillRate current of
                     None \<Rightarrow> Inl TypeError
                   | Some f \<Rightarrow>
                       (case fillRate_r recommended of
                          None \<Rightarrow> Inl TypeError
                        | Some g \<Rightarrow> Inr (\<bar>f - g\<bar> < 1 / 1000000)))))"

section \<open>The forecaster\<close>

definition fallback_forecast :: "env \<Rightarrow> TimePoint list \<Rightarrow> int \<Rightarrow> real" where
  "fallback_forecast e pts horizon_seconds =
     (if pts = [] then 0
      else
        let k = max 1 (min (int (length pts)) (FALLBACK_WINDOW_POINTS e));
            w = py_slice_from (- k) pts in
        if length w = 1 then rps (last w)
        else
          let start = hd w; end = last w;
              total = total_seconds (ts end - ts start) in
          if total \<le> 0 then rps end
          else
            let slope = (rps end - rps start) / total in
            max 0 (rps end + slope * real_of_int horizon_seconds))"

record Forecaster =
  horizon_seconds :: int
  min_points :: int

definition Forecaster_init :: "int \<Rightarrow> int \<Rightarrow> Forecaster" where
  "Forecaster_init h m = \<lparr>horizon_seconds = max 1 h, min_points = max 2 m\<rparr>"

text \<open>The module-level \<^verbatim>\<open>forecaster\<close>.\<close>

definition forecaster :: "env \<Rightarrow> Forecaster" where
  "forecaster e = Forecaster_init (FORECAST_SECONDS e) (MIN_HISTORY_POINTS e)"

text \<open>
  The Prophet library is not part of the repository. It is a parameter: \<open>None\<close> when the
  import failed (\<^verbatim>\<open>PROPHET_AVAILABLE\<close> is false), otherwise the function that fits the model
  on the points and predicts at the given time, \<open>None\<close> standing for any exception.
\<close>

type_synonym prophet = "(TimePoint list \<Rightarrow> datetime \<Rightarrow> real option) option"

definition forecast :: "env \<Rightarrow> prophet \<Rightarrow> Forecaster \<Rightarrow> TimePoint list \<Rightarrow> real option" where
  "forecast e pr f pts =
     (if pts = [] then None
      else
        (case pr of
           None \<Rightarrow> Some (fallback_forecast e pts (horizon_seconds f))
         | Some model \<Rightarrow>
             if min_points f \<le> int (length pts) then
               (case model pts (ts (last pts) + timedelta_seconds (horizon_seconds f)) of
                  Some predicted \<Rightarrow> Some (max 0 predicted)
                | None \<Rightarrow> Some (fallback_forecast e pts (horizon_seconds f)))
             else Some (fallback_forecast e pts (horizon_seconds f))))"

section \<open>Timestamps\<close>

text \<open>
  \<^verbatim>\<open>datetime.fromtimestamp(x, tz=timezone.utc)\<close> of the standard library: OverflowError when
  \<open>x\<close> does not fit the platform's 64-bit \<^verbatim>\<open>time_t\<close>, ValueError when the year falls outside
  1..9999, otherwise the instant rounded to a microsecond.
\<close>

definition datetime_fromtimestamp :: "real \<Rightarrow> py_error + datetime" where
  "datetime_fromtimestamp x =
     (if x < - (2 ^ 63) \<or> 2 ^ 63 \<le> x then Inl OverflowError
      else if x < - 62135596800 \<or> 253402300800 \<le> x then Inl ValueError
      else Inr (round_half_even (x * 1000000)))"

text \<open>
  The \<^verbatim>\<open>timestamp\<close> field is \<^verbatim>\<open>Optional[Union[str, float, int]]\<close>; a number is passed to
  \<^verbatim>\<open>float\<close> either way.
\<close>

datatype ts_value = TsStr string | TsNum real

text \<open>
  Library code the service calls is a parameter, collected in \<open>pylib\<close>. The two string
  parsers of the standard library return \<open>None\<close> for ValueError:
  \<^verbatim>\<open>datetime.fromisoformat\<close> gives whether the result is naive and the instant it denotes
  when read as UTC; \<^verbatim>\<open>float\<close> gives the number. \<open>LimitConfigIn_parse\<close> is pydantic's
  \<^verbatim>\<open>LimitConfigIn(**merged)\<close> on a dictionary of JSON values, \<open>None\<close> for any exception.
  A decoded JSON object is an association list.
\<close>

datatype json = JNull | JBool bool | JNum real | JStr string | JArr "json list"
  | JObj "(string \<times> json) list"

record pylib =
  fromisoformat :: "string \<Rightarrow> (bool \<times> datetime) option"
  float_of_str :: "string \<Rightarrow> real option"
  LimitConfigIn_parse :: "(string \<times> json) list \<Rightarrow> LimitConfigIn option"

definition replace_Z :: "string \<Rightarrow> string" where
  "replace_Z s = concat (map (\<lambda>c. if c = CHR ''Z'' then ''+00:00'' else [c]) s)"

text \<open>\<open>utcnow\<close> is the value \<^verbatim>\<open>datetime.now(timezone.utc)\<close> has when it is called.\<close>

definition parse_timestamp :: "pylib \<Rightarrow> datetime \<Rightarrow> ts_value option \<Rightarrow> py_error + datetime" where
  "parse_timestamp lib utcnow v =
     (case v of
        None \<Rightarrow> Inr utcnow
      | Some (TsNum x) \<Rightarrow> datetime_fromtimestamp x
      | Some (TsStr s) \<Rightarrow>
          (case fromisoformat lib (replace_Z s) of
             Some (naive, t) \<Rightarrow> Inr t
           | None \<Rightarrow>
               (case float_of_str lib s of
                  None \<Rightarrow> Inr utcnow
                | Some x \<Rightarrow>
                    (case datetime_fromtimestamp x of
                       Inl ValueError \<Rightarrow> Inr utcnow
                     | Inl err \<Rightarrow> Inl err
                     | Inr t \<Rightarrow> Inr t))))"

section \<open>The recommendation policy\<close>

record LimitConfigRequest =
  timestamp :: "ts_value option"
  observedRps :: real
  rejectedRate :: "real option"
  latencyP95 :: "real option"
  errors5xx :: "int option"
  currentConfig :: LimitConfigIn

record RecommendationState =
  last_change_at :: "datetime option"
  last_algo_switch_at :: "datetime option"
  last_good_recommendation :: "LimitConfigResponse option"
  last_good_config :: "LimitConfigIn option"
  last_predicted_rps :: "real option"

definition RecommendationState_init :: RecommendationState where
  "RecommendationState_init = \<lparr>last_change_at = None, last_algo_switch_at = None,
     last_good_recommendation = None, last_good_config = None, last_predicted_rps = None\<rparr>"

text \<open>Lines 529 to 535 of \<^verbatim>\<open>recommend_config\<close>: the three overload checks.\<close>

definition overload :: "env \<Rightarrow> LimitConfigRequest \<Rightarrow> bool" where
  "overload e request =
     (let o1 = (case rejectedRate request of
                  None \<Rightarrow> False | Some x \<Rightarrow> REJECTED_RATE_THRESHOLD e \<le> x);
          o2 = (case latencyP95 request of
                  None \<Rightarrow> o1 | Some x \<Rightarrow> if LATENCY_P95_THRESHOLD e \<le> x then True else o1);
          o3 = (case errors5xx request of
                  None \<Rightarrow> o2 | Some n \<Rightarrow> if ERRORS_5XX_THRESHOLD e \<le> n then True else o2)
      in o3)"

text \<open>
  Lines 537 to 549: the target rate from the clamped forecast \<open>p\<close> and the current limit.
\<close>

definition target_rps :: "env \<Rightarrow> LimitConfigRequest \<Rightarrow> real \<Rightarrow> real \<Rightarrow> real" where
  "target_rps e request p current_limit =
     (let spike = (current_limit * DDOS_MULTIPLIER e \<le> p);
          t0 = (if overload e request \<or> spike then current_limit * DECREASE_FACTOR e
                else if current_limit * (1 + INCREASE_THRESHOLD e) < p
                  then p * (1 + INCREASE_HEADROOM e)
                else if p < current_limit * (1 - DECREASE_THRESHOLD e) then p
                else current_limit);
          t1 = clamp t0 (MIN_RPS e) (max_rps e)
      in if \<not> isfinite t1 then current_limit else t1)"

text \<open>Lines 552 to 555.\<close>

definition algo_switch_allowed :: "env \<Rightarrow> RecommendationState \<Rightarrow> datetime \<Rightarrow> bool" where
  "algo_switch_allowed e state now =
     (ALLOW_ALGO_SWITCH e \<and>
      (case last_algo_switch_at state of
         None \<Rightarrow> True
       | Some t \<Rightarrow> real_of_int (MIN_ALGO_SWITCH_INTERVAL_SECONDS e) \<le> total_seconds (now - t)))"

text \<open>Lines 551 to 560; \<^verbatim>\<open>is_bursty\<close> is only called when a switch is allowed.\<close>

definition desired_algorithm ::
    "env \<Rightarrow> LimitConfigIn \<Rightarrow> TimePoint list \<Rightarrow> RecommendationState \<Rightarrow> datetime \<Rightarrow> py_error + string" where
  "desired_algorithm e current_config history state now =
     (if algo_switch_allowed e state now then
        (case is_bursty e history of
           Inl err \<Rightarrow> Inl err
         | Inr True \<Rightarrow> Inr ''token''
         | Inr False \<Rightarrow>
             Inr (if algorithm current_config = ''token'' then ''sliding''
                  else algorithm current_config))
      else Inr (algorithm current_config))"

text \<open>Lines 570 to 573.\<close>

definition recent_change_block :: "env \<Rightarrow> RecommendationState \<Rightarrow> datetime \<Rightarrow> bool" where
  "recent_change_block e state now =
     (case last_change_at state of
        None \<Rightarrow> False
      | Some t \<Rightarrow> total_seconds (now - t) < real_of_int (MIN_CHANGE_INTERVAL_SECONDS e))"

definition change_ratio :: "real \<Rightarrow> real \<Rightarrow> real" where
  "change_ratio target current_limit =
     (if 0 < current_limit then \<bar>target - current_limit\<bar> / current_limit else 0)"

definition recommend_config ::
    "env \<Rightarrow> LimitConfigRequest \<Rightarrow> real \<Rightarrow> TimePoint list \<Rightarrow> RecommendationState \<Rightarrow> datetime
      \<Rightarrow> py_error + (LimitConfigResponse \<times> RecommendationState)" where
  "recommend_config e request predicted history state now =
     (let current_config = currentConfig request in
      case current_rps_limit current_config of
        Inl err \<Rightarrow> Inl err
      | Inr current_limit \<Rightarrow>
          let p = clamp predicted 0 (max_rps e);
              target = target_rps e request p current_limit in
          (case desired_algorithm e current_config history state now of
             Inl err \<Rightarrow> Inl err
           | Inr desired \<Rightarrow>
               let recommendation =
                     build_response e desired target current_config (Some (py_round3 p));
                   keep = build_response e (algorithm current_config) current_limit
                            current_config (Some (py_round3 p)) in
               (case configs_equal current_config recommendation of
                  Inl err \<Rightarrow> Inl err
                | Inr True \<Rightarrow> Inr (recommendation, state)
                | Inr False \<Rightarrow>
                    if desired = algorithm current_config \<and>
                       change_ratio target current_limit < MIN_RELATIVE_CHANGE e
                    then Inr (keep, state)
                    else if recent_change_block e state now then Inr (keep, state)
                    else
                      let state1 = state\<lparr>last_change_at := Some now\<rparr>;
                          state2 = (if desired \<noteq> algorithm current_config
                                    then state1\<lparr>last_algo_switch_at := Some now\<rparr>
                                    else state1)
                      in Inr (recommendation, state2))))"

section \<open>The endpoint and the malformed-body handler\<close>

text \<open>\<^verbatim>\<open>fallback.dict(exclude_none=True)\<close>.\<close>

definition LimitConfigIn_dict :: "LimitConfigIn \<Rightarrow> (string \<times> json) list" where
  "LimitConfigIn_dict c =
     [(''algorithm'', JStr (algorithm c))]
     @ (case limit c of None \<Rightarrow> [] | Some l \<Rightarrow> [(''limit'', JNum l)])
     @ (case window c of None \<Rightarrow> [] | Some w \<Rightarrow> [(''window'', JNum (real_of_int w))])
     @ (case capacity c of None \<Rightarrow> [] | Some k \<Rightarrow> [(''capacity'', JNum (real_of_int k))])
     @ (case fillRate c of None \<Rightarrow> [] | Some f \<Rightarrow> [(''fillRate'', JNum f)])"

definition coerce_current_config ::
    "pylib \<Rightarrow> json option \<Rightarrow> LimitConfigIn option \<Rightarrow> LimitConfigIn option" where
  "coerce_current_config lib payload fallback =
     (case payload of
        Some (JObj kvs) \<Rightarrow>
          (case map_of kvs ''currentConfig'' of
             Some (JObj raw_config) \<Rightarrow>
               let merged0 = (case fallback of None \<Rightarrow> [] | Some fb \<Rightarrow> LimitConfigIn_dict fb);
                   merged = fold (\<lambda>(key, v) m. if v \<noteq> JNull then AList.update key v m else m)
                              raw_config merged0 in
               if merged = [] then fallback
               else
                 (case LimitConfigIn_parse lib merged of
                    None \<Rightarrow> fallback
                  | Some candidate \<Rightarrow>
                      if validate_current_config candidate \<noteq> None then fallback
                      else Some candidate)
           | _ \<Rightarrow> fallback)
      | _ \<Rightarrow> fallback)"

text \<open>
  A reply is the 422 of another path, or a 200 with the recommendation and the label of
  the \<^verbatim>\<open>ai_limit_config_requests_total\<close> counter that was incremented.
\<close>

datatype reply = Unprocessable | Ok200 LimitConfigResponse string

text \<open>
  \<open>payload\<close> is the decoded body, \<open>None\<close> when the body is empty or is not JSON. The handler
  reads the state and writes nothing; the state is returned as it is.
\<close>

definition request_validation_exception_handler ::
    "env \<Rightarrow> pylib \<Rightarrow> string \<Rightarrow> json option \<Rightarrow> RecommendationState
      \<Rightarrow> reply \<times> RecommendationState" where
  "request_validation_exception_handler e lib path payload state =
     (if path \<noteq> ''/v1/limit-config'' then (Unprocessable, state)
      else
        let fallback_config = last_good_config state;
            fallback_recommendation = last_good_recommendation state;
            lp = last_predicted_rps state in
        case coerce_current_config lib payload fallback_config of
          Some current_config \<Rightarrow>
            (Ok200 (keep_current_response e current_config lp) ''validation_error'', state)
        | None \<Rightarrow>
            (case fallback_recommendation of
               Some r \<Rightarrow> (Ok200 r ''validation_error'', state)
             | None \<Rightarrow>
                 (Ok200 (keep_current_response e (default_fallback_config e) lp)
                    ''validation_error'', state)))"

text \<open>
  \<^verbatim>\<open>limit_config\<close> on a parsed request. \<open>received_at\<close> and \<open>utcnow\<close> are the two readings of
  the clock. An exception leaves the state as it was when it was raised.
\<close>

definition limit_config ::
    "env \<Rightarrow> pylib \<Rightarrow> prophet \<Rightarrow> datetime \<Rightarrow> datetime \<Rightarrow> LimitConfigRequest
      \<Rightarrow> DataCollector \<times> RecommendationState
      \<Rightarrow> (py_error \<times> RecommendationState) + (reply \<times> DataCollector \<times> RecommendationState)" where
  "limit_config e lib pr received_at utcnow request cs =
     (let coll = fst cs; state = snd cs in
      case parse_timestamp lib utcnow (timestamp request) of
        Inl err \<Rightarrow> Inl (err, state)
      | Inr sample_ts \<Rightarrow>
          (case add_point coll sample_ts (observedRps request) of
             Inl err \<Rightarrow> Inl (err, state)
           | Inr coll1 \<Rightarrow>
               let history = snapshot coll1;
                   predicted0 = (case forecast e pr (forecaster e) history of
                                   None \<Rightarrow> observedRps request | Some y \<Rightarrow> y);
                   predicted = clamp predicted0 0 (max_rps e);
                   predicted_rps = py_round3 predicted;
                   state1 = state\<lparr>last_predicted_rps := Some predicted_rps\<rparr> in
               (case validate_current_config (currentConfig request) of
                  Some validation_error \<Rightarrow>
                    let fallback_config =
                          (case last_good_config state1 of
                             None \<Rightarrow> default_fallback_config e | Some c \<Rightarrow> c) in
                    Inr (Ok200 (keep_current_response e fallback_config (Some predicted_rps))
                           ''invalid_config'', coll1, state1)
                | None \<Rightarrow>
                    (case recommend_config e request predicted history state1 received_at of
                       Inl err \<Rightarrow> Inl (err, state1)
                     | Inr (recommendation, state2) \<Rightarrow>
                         Inr (Ok200 recommendation ''ok'', coll1,
                              state2\<lparr>last_good_recommendation := Some recommendation,
                                     last_good_config := Some (currentConfig request)\<rparr>)))))"

section \<open>Auxiliary definitions for the properties\<close>

text \<open>The invariant of the buffer, in terms of the bounds the collector holds.\<close>

definition buffer_inv :: "DataCollector \<Rightarrow> bool" where
  "buffer_inv c \<longleftrightarrow>
     1 \<le> window_seconds c \<and> 2 \<le> max_points c \<and> increasing (points c) \<and>
     int (length (points c)) \<le> max_points c \<and>
     span (points c) \<le> timedelta_seconds (window_seconds c)"

text \<open>A configuration whose two history bounds are below the collector's minimums.\<close>

definition tiny_env :: env where
  "tiny_env = default_env\<lparr>MAX_HISTORY_POINTS := 1, HISTORY_WINDOW_SECONDS := 0\<rparr>"


text \<open>
  The fallback forecast in the words of the specification, for a window of the last \<open>k\<close>
  points and a horizon: the point's rate when \<open>k = 1\<close>, the last rate when the window's
  time span is not positive, otherwise the linear extrapolation, not below zero.
\<close>

definition spec_fallback :: "nat \<Rightarrow> TimePoint list \<Rightarrow> real \<Rightarrow> real" where
  "spec_fallback k pts horizon =
     (let w = drop (length pts - k) pts;
          rps_start = rps (hd w); rps_end = rps (last w);
          ts_start = ts (hd w); ts_end = ts (last w) in
      if k = 1 then rps_end
      else if ts_end - ts_start \<le> 0 then rps_end
      else max 0 (rps_end + (rps_end - rps_start) / total_seconds (ts_end - ts_start) * horizon))"

text \<open>The number of points \<^verbatim>\<open>fallback_forecast\<close> slices off the end of the list.\<close>

definition fallback_window_size :: "env \<Rightarrow> TimePoint list \<Rightarrow> nat" where
  "fallback_window_size e pts = nat (max 1 (min (int (length pts)) (FALLBACK_WINDOW_POINTS e)))"

definition two_points :: "TimePoint list" where
  "two_points = [\<lparr>ts = 0, rps = 10\<rparr>, \<lparr>ts = 1000000, rps = 20\<rparr>]"

definition zero_horizon_env :: env where
  "zero_horizon_env = default_env\<lparr>FORECAST_SECONDS := 0\<rparr>"

text \<open>A fixed-window configuration with the limit one half.\<close>

definition half_limit_config :: LimitConfigIn where
  "half_limit_config = \<lparr>algorithm = ''fixed'', limit = Some (1 / 2), window = Some 1,
     capacity = None, fillRate = None\<rparr>"


text \<open>
  The overload signal and the first matching rule for the target rate, in the words of the
  specification.
\<close>

definition spec_overload :: "env \<Rightarrow> LimitConfigRequest \<Rightarrow> bool" where
  "spec_overload e request \<longleftrightarrow>
     (case rejectedRate request of None \<Rightarrow> False | Some x \<Rightarrow> REJECTED_RATE_THRESHOLD e \<le> x) \<or>
     (case latencyP95 request of None \<Rightarrow> False | Some x \<Rightarrow> LATENCY_P95_THRESHOLD e \<le> x) \<or>
     (case errors5xx request of None \<Rightarrow> False | Some n \<Rightarrow> ERRORS_5XX_THRESHOLD e \<le> n)"

definition spec_target :: "env \<Rightarrow> bool \<Rightarrow> real \<Rightarrow> real \<Rightarrow> real" where
  "spec_target e ov predicted current_limit =
     (if ov \<or> current_limit * DDOS_MULTIPLIER e \<le> predicted
        then current_limit * DECREASE_FACTOR e
      else if predicted > current_limit * (1 + INCREASE_THRESHOLD e)
        then predicted * (1 + INCREASE_HEADROOM e)
      else if predicted < current_limit * (1 - DECREASE_THRESHOLD e) then predicted
      else current_limit)"

text \<open>Scenario 3 of the specification: a rejected rate of 0.2 against \<open>fixed\<close>, limit 100, window 1.\<close>

definition overload_request :: LimitConfigRequest where
  "overload_request = \<lparr>timestamp = None, observedRps = 50, rejectedRate = Some (2 / 10),
     latencyP95 = None, errors5xx = None,
     currentConfig = \<lparr>algorithm = ''fixed'', limit = Some 100, window = Some 1,
       capacity = None, fillRate = None\<rparr>\<rparr>"


text \<open>
  A call of \<^verbatim>\<open>recommend_config\<close> is suppressed when the proposed configuration already equals
  the current one, or the algorithm stays and the change ratio is below
  \<open>MIN_RELATIVE_CHANGE\<close>, or the last change is less than \<open>MIN_CHANGE_INTERVAL_SECONDS\<close> old.
\<close>

definition suppressed ::
    "env \<Rightarrow> LimitConfigRequest \<Rightarrow> real \<Rightarrow> TimePoint list \<Rightarrow> RecommendationState \<Rightarrow> datetime \<Rightarrow> bool" where
  "suppressed e request predicted history state now =
     (case current_rps_limit (currentConfig request) of
        Inl err \<Rightarrow> False
      | Inr cl \<Rightarrow>
          (case desired_algorithm e (currentConfig request) history state now of
             Inl err \<Rightarrow> False
           | Inr d \<Rightarrow>
               let target = target_rps e request (clamp predicted 0 (max_rps e)) cl in
               configs_equal (currentConfig request)
                 (build_response e d target (currentConfig request)
                    (Some (py_round3 (clamp predicted 0 (max_rps e))))) = Inr True \<or>
               (d = algorithm (currentConfig request) \<and>
                change_ratio target cl < MIN_RELATIVE_CHANGE e) \<or>
               recent_change_block e state now))"

text \<open>
  The times of the calls that were not suppressed, over a sequence of calls that hand the
  state on; a call that raises leaves the state as it is.
\<close>

fun accepted_changes ::
    "env \<Rightarrow> RecommendationState \<Rightarrow> (LimitConfigRequest \<times> real \<times> TimePoint list \<times> datetime) list
      \<Rightarrow> datetime list" where
  "accepted_changes e state [] = []"
| "accepted_changes e state ((request, predicted, history, now) # xs) =
     (case recommend_config e request predicted history state now of
        Inl err \<Rightarrow> accepted_changes e state xs
      | Inr (rec, st') \<Rightarrow>
          (if suppressed e request predicted history state now then [] else [now])
          @ accepted_changes e st' xs)"

definition far_enough :: "env \<Rightarrow> datetime \<Rightarrow> datetime \<Rightarrow> bool" where
  "far_enough e a b \<longleftrightarrow> real_of_int (MIN_CHANGE_INTERVAL_SECONDS e) \<le> total_seconds (b - a)"

definition previous_change :: "RecommendationState \<Rightarrow> datetime list" where
  "previous_change state = (case last_change_at state of None \<Rightarrow> [] | Some t \<Rightarrow> [t])"

text \<open>The outcome of scenario 3 from the initial state at time 0.\<close>

definition decreased_response :: LimitConfigResponse where
  "decreased_response = \<lparr>algorithm_r = ''fixed'', limit_r = Some 70, window_r = Some 1,
     capacity_r = None, fillRate_r = None, predictedRps = Some 50, validFor = Some 60\<rparr>"

definition changed_state :: RecommendationState where
  "changed_state = RecommendationState_init\<lparr>last_change_at := Some 0\<rparr>"


text \<open>
  A library whose parsers reject every input; the requests below carry no timestamp and no
  \<open>currentConfig\<close> to coerce, so none of them is called.
\<close>

definition strict_lib :: pylib where
  "strict_lib = \<lparr>fromisoformat = (\<lambda>s. None), float_of_str = (\<lambda>s. None),
     LimitConfigIn_parse = (\<lambda>m. None)\<rparr>"

text \<open>The state after scenario 3 has been served from the initial state.\<close>

definition after_overload_state :: RecommendationState where
  "after_overload_state = \<lparr>last_change_at = Some 0, last_algo_switch_at = None,
     last_good_recommendation = Some decreased_response,
     last_good_config = Some (currentConfig overload_request),
     last_predicted_rps = Some 50\<rparr>"

text \<open>The body \<^verbatim>\<open>{"garbage": true}\<close>.\<close>

definition garbage :: json where
  "garbage = JObj [(''garbage'', JBool True)]"


text \<open>The configuration of scenario 3 kept as it is, with the forecast 50.\<close>

definition kept_response :: LimitConfigResponse where
  "kept_response = \<lparr>algorithm_r = ''fixed'', limit_r = Some 100, window_r = Some 1,
     capacity_r = None, fillRate_r = None, predictedRps = Some 50, validFor = Some 60\<rparr>"


text \<open>
  A library that reads the string \<^verbatim>\<open>1e30\<close> as Python does: \<^verbatim>\<open>fromisoformat\<close> rejects it and
  \<^verbatim>\<open>float\<close> gives ten to the thirtieth.
\<close>

definition exponent_lib :: pylib where
  "exponent_lib = \<lparr>fromisoformat = (\<lambda>s. None),
     float_of_str = (\<lambda>s. if s = ''1e30'' then Some (10 ^ 30) else None),
     LimitConfigIn_parse = (\<lambda>m. None)\<rparr>"


text \<open>
  The token-bucket capacity in the words of the specification: the largest of the fill
  rate times \<open>TOKEN_CAPACITY_SECONDS\<close>, \<open>MIN_RPS\<close> times \<open>TOKEN_CAPACITY_SECONDS\<close> and the fill
  rate, each rounded up, capped by \<open>MAX_CAPACITY\<close> when that is positive.
\<close>

definition spec_capacity :: "env \<Rightarrow> real \<Rightarrow> int" where
  "spec_capacity e fill_rate =
     (let k = max (max \<lceil>fill_rate * TOKEN_CAPACITY_SECONDS e\<rceil>
                       \<lceil>MIN_RPS e * TOKEN_CAPACITY_SECONDS e\<rceil>) \<lceil>fill_rate\<rceil>
      in if 0 < MAX_CAPACITY e then min k (MAX_CAPACITY e) else k)"

text \<open>A token-bucket configuration, and the configuration of scenario 1.\<close>

definition token_config :: LimitConfigIn where
  "token_config = \<lparr>algorithm = ''token'', limit = None, window = None,
     capacity = Some 100, fillRate = Some 10\<rparr>"

definition steady_config :: LimitConfigIn where
  "steady_config = \<lparr>algorithm = ''fixed'', limit = Some 120, window = Some 1,
     capacity = None, fillRate = None\<rparr>"


text \<open>
  Two requests one second apart: a valid one whose configuration has the limit one half,
  then scenario 6 of the specification, whose limit is zero; with the replies, the state
  and the buffers they produce.
\<close>

definition half_limit_request :: LimitConfigRequest where
  "half_limit_request = \<lparr>timestamp = None, observedRps = 1, rejectedRate = None,
     latencyP95 = None, errors5xx = None, currentConfig = half_limit_config\<rparr>"

definition zero_limit_request :: LimitConfigRequest where
  "zero_limit_request = \<lparr>timestamp = None, observedRps = 1, rejectedRate = None,
     latencyP95 = None, errors5xx = None,
     currentConfig = \<lparr>algorithm = ''sliding'', limit = Some 0, window = Some 1,
       capacity = None, fillRate = None\<rparr>\<rparr>"

definition raised_response :: LimitConfigResponse where
  "raised_response = \<lparr>algorithm_r = ''fixed'', limit_r = Some 1, window_r = Some 1,
     capacity_r = None, fillRate_r = None, predictedRps = Some 1, validFor = Some 60\<rparr>"

definition truncated_response :: LimitConfigResponse where
  "truncated_response = \<lparr>algorithm_r = ''fixed'', limit_r = Some 0, window_r = Some 1,
     capacity_r = None, fillRate_r = None, predictedRps = Some 1, validFor = Some 60\<rparr>"

definition after_half_limit_state :: RecommendationState where
  "after_half_limit_state = \<lparr>last_change_at = Some 0, last_algo_switch_at = None,
     last_good_recommendation = Some raised_response,
     last_good_config = Some half_limit_config,
     last_predicted_rps = Some 1\<rparr>"

definition one_sample :: DataCollector where
  "one_sample = (collector default_env)\<lparr>points := [\<lparr>ts = 0, rps = 1\<rparr>]\<rparr>"

definition two_samples :: DataCollector where
  "two_samples = (collector default_env)\<lparr>points := [\<lparr>ts = 0, rps = 1\<rparr>, \<lparr>ts = 1000000, rps = 1\<rparr>]\<rparr>"


section \<open>Properties of the buffer\<close>

lemma trim_age_dropWhile: "trim_age cutoff ps = dropWhile (\<lambda>p. ts p < cutoff) ps"
  by (induction ps) auto

lemma trim_count_drop:
  "0 \<le> m \<Longrightarrow> trim_count m ps = Inr (drop (length ps - nat m) ps)"
proof (induction ps)
  case Nil
  then show ?case by simp
next
  case (Cons p ps)
  show ?case
  proof (cases "m < int (length (p # ps))")
    case True
    then have "length (p # ps) - nat m = Suc (length ps - nat m)"
      using Cons.prems by (simp add: Suc_diff_le)
    with True Cons show ?thesis by simp
  next
    case False
    then have "length (p # ps) - nat m = 0" by simp
    with False show ?thesis by simp
  qed
qed

lemma increasing_append_iff:
  "increasing (ps @ [q]) \<longleftrightarrow> increasing ps \<and> (ps = [] \<or> ts (last ps) < ts q)"
proof (cases ps rule: rev_cases)
  case Nil then show ?thesis by (simp add: increasing_def)
next
  case (snoc ys y)
  have "increasing (ys @ [y]) \<Longrightarrow> ts y < ts q \<Longrightarrow> \<forall>x\<in>set ys. ts x < ts q"
    by (auto simp: increasing_def sorted_wrt_append)
  with snoc show ?thesis
    by (auto simp: increasing_def sorted_wrt_append)
qed

lemma increasing_drop: "increasing ps \<Longrightarrow> increasing (drop n ps)"
  by (simp add: increasing_def sorted_wrt_drop flip: drop_map)

lemma increasing_dropWhile: "increasing ps \<Longrightarrow> increasing (dropWhile P ps)"
proof -
  assume a: "increasing ps"
  have "dropWhile P ps = drop (length (takeWhile P ps)) ps"
    by (simp add: dropWhile_eq_drop)
  with a show ?thesis by (simp add: increasing_drop)
qed


lemma span_drop_le:
  assumes "increasing ps" and "n < length ps"
  shows "span (drop n ps) \<le> span ps"
proof -
  from assms(2) have ne: "ps \<noteq> []" "drop n ps \<noteq> []" by auto
  have l: "last (drop n ps) = last ps" using assms(2) by simp
  have h: "hd (drop n ps) = ps ! n" using assms(2) by (simp add: hd_drop_conv_nth)
  have "ts (ps ! 0) \<le> ts (ps ! n)"
  proof (cases "n = 0")
    case True then show ?thesis by simp
  next
    case False
    with assms have "ts (ps ! 0) < ts (ps ! n)"
      using sorted_wrt_nth_less [of "(<)" "map ts ps" 0 n] ne(1)
      by (simp add: increasing_def)
    then show ?thesis by simp
  qed
  moreover have "span ps = ts (last ps) - ts (ps ! 0)"
    using ne(1) by (cases ps) (auto simp: span_def)
  moreover have "span (drop n ps) = ts (last ps) - ts (ps ! n)"
    using ne(2) l h by (cases "drop n ps") (auto simp: span_def)
  ultimately show ?thesis by simp
qed

lemma span_last_hd: "ps \<noteq> [] \<Longrightarrow> span ps = ts (last ps) - ts (hd ps)"
  by (cases ps) (auto simp: span_def)

lemma trim_age_keeps_tail:
  assumes "\<not> ts q < cutoff"
  shows "\<exists>k. k < length (ys @ [q]) \<and> trim_age cutoff (ys @ [q]) = drop k (ys @ [q]) \<and>
             \<not> ts ((ys @ [q]) ! k) < cutoff"
proof -
  let ?P = "\<lambda>p. ts p < cutoff"
  let ?k = "length (takeWhile ?P (ys @ [q]))"
  have "\<not> (\<forall>x\<in>set (ys @ [q]). ?P x)"
    using assms by simp
  then have "takeWhile ?P (ys @ [q]) \<noteq> ys @ [q]"
    by (simp only: takeWhile_eq_all_conv not_False_eq_True)
  then have "?k \<noteq> length (ys @ [q])"
    by (metis takeWhile_eq_take take_all_iff order_refl)
  then have lt: "?k < length (ys @ [q])"
    using length_takeWhile_le [of ?P "ys @ [q]"] by linarith
  have "trim_age cutoff (ys @ [q]) = drop ?k (ys @ [q])"
    by (simp only: trim_age_dropWhile dropWhile_eq_drop)
  moreover have "\<not> ?P ((ys @ [q]) ! ?k)"
    using lt by (rule nth_length_takeWhile)
  ultimately show ?thesis using lt by blast
qed

lemma add_point_preserves:
  assumes "buffer_inv c"
  shows "\<exists>c'. add_point c t r = Inr c' \<and> buffer_inv c' \<and>
           window_seconds c' = window_seconds c \<and> max_points c' = max_points c \<and>
           points c' \<noteq> [] \<and>
           last (points c') =
             \<lparr>ts = (if points c \<noteq> [] \<and> t \<le> ts (last (points c))
                       then ts (last (points c)) + 1 else t), rps = r\<rparr>"
proof -
  define t' where "t' = (if points c \<noteq> [] \<and> t \<le> ts (last (points c))
                       then ts (last (points c)) + 1 else t)"
  define q where "q = \<lparr>ts = t', rps = r\<rparr>"
  define ps1 where "ps1 = points c @ [q]"
  define cutoff where "cutoff = ts q - timedelta_seconds (window_seconds c)"
  from assms have w: "1 \<le> window_seconds c" and m: "2 \<le> max_points c"
    and inc: "increasing (points c)"
    by (simp_all add: buffer_inv_def)
  have inc1: "increasing ps1"
    using inc by (auto simp: ps1_def increasing_append_iff q_def t'_def)
  have "\<not> ts q < cutoff"
    using w by (simp add: cutoff_def timedelta_seconds_def)
  from trim_age_keeps_tail [OF this, of "points c"]
  obtain k where k: "k < length ps1" "trim_age cutoff ps1 = drop k ps1"
    "\<not> ts (ps1 ! k) < cutoff"
    unfolding ps1_def by blast
  define ps2 where "ps2 = drop k ps1"
  have ne2: "ps2 \<noteq> []" using k(1) by (simp add: ps2_def)
  have last2: "last ps2 = q" using k(1) by (simp add: ps2_def ps1_def)
  have hd2: "hd ps2 = ps1 ! k" using k(1) by (simp add: ps2_def hd_drop_conv_nth)
  have inc2: "increasing ps2" using inc1 by (simp add: ps2_def increasing_drop)
  have span2: "span ps2 \<le> timedelta_seconds (window_seconds c)"
    using k(3) by (simp add: span_last_hd [OF ne2] last2 hd2 cutoff_def)
  define j where "j = length ps2 - nat (max_points c)"
  define ps3 where "ps3 = drop j ps2"
  have j: "j < length ps2" using ne2 m by (simp add: j_def)
  have tc: "trim_count (max_points c) ps2 = Inr ps3"
    using m by (simp add: trim_count_drop ps3_def j_def)
  have ne3: "ps3 \<noteq> []" using j by (simp add: ps3_def)
  have last3: "last ps3 = q" using j last2 by (simp add: ps3_def)
  have inc3: "increasing ps3" using inc2 by (simp add: ps3_def increasing_drop)
  have span3: "span ps3 \<le> timedelta_seconds (window_seconds c)"
    using span_drop_le [OF inc2 j] span2 by (simp add: ps3_def)
  have len3: "int (length ps3) \<le> max_points c"
    using m by (simp add: ps3_def j_def)
  have "add_point c t r = Inr (c\<lparr>points := ps3\<rparr>)"
    using tc k(2)
    by (simp add: add_point_def trim_def Let_def ps2_def ps1_def q_def t'_def cutoff_def)
  then show ?thesis
    using w m inc3 span3 len3 ne3 last3
    by (simp add: buffer_inv_def q_def t'_def)
qed

lemma collector_inv: "buffer_inv (collector e)"
  by (simp add: buffer_inv_def collector_def DataCollector_init_def increasing_def span_def
      timedelta_seconds_def)

lemma add_points_preserves:
  "buffer_inv c \<Longrightarrow> \<exists>c'. add_points c xs = Inr c' \<and> buffer_inv c' \<and>
     window_seconds c' = window_seconds c \<and> max_points c' = max_points c"
proof (induction xs arbitrary: c)
  case Nil
  then show ?case by simp
next
  case (Cons x xs)
  obtain t r where x: "x = (t, r)" by (cases x)
  from add_point_preserves [OF Cons.prems, of t r]
  obtain c1 where c1: "add_point c t r = Inr c1" "buffer_inv c1"
    "window_seconds c1 = window_seconds c" "max_points c1 = max_points c"
    by blast
  from Cons.IH [OF c1(2)] c1 x show ?case by auto
qed





section \<open>Keeping a configuration with a fractional limit\<close>

text \<open>
  C10. The configuration \<open>fixed\<close>, limit 0.5, window 1 satisfies the field bounds and passes
  \<^verbatim>\<open>validate_current_config\<close>; \<^verbatim>\<open>keep_current_response\<close> turns its limit into 0, and the
  response read back as a configuration is rejected by \<^verbatim>\<open>validate_current_config\<close>.
\<close>

theorem keep_current_truncates_fractional_limit:
  "LimitConfigIn_fields half_limit_config \<and>
   validate_current_config half_limit_config = None \<and>
   limit_r (keep_current_response e half_limit_config p) = Some 0 \<and>
   validate_current_config (as_incoming (keep_current_response e half_limit_config p))
     = Some ''limit/window must be positive''"
  by (simp add: half_limit_config_def LimitConfigIn_fields_def validate_current_config_def
      ALLOWED_ALGORITHMS_def fixed_or_sliding_def keep_current_response_def as_incoming_def
      py_int_def)



section \<open>Properties of the fallback forecast\<close>

lemma fallback_window:
  assumes "pts \<noteq> []"
  shows "py_slice_from (- max 1 (min (int (length pts)) (FALLBACK_WINDOW_POINTS e))) pts
           = drop (length pts - fallback_window_size e pts) pts"
    and "1 \<le> fallback_window_size e pts" and "fallback_window_size e pts \<le> length pts"
proof -
  define k where "k = max 1 (min (int (length pts)) (FALLBACK_WINDOW_POINTS e))"
  from assms have len: "1 \<le> int (length pts)" by (cases pts) auto
  then have k: "1 \<le> k" "k \<le> int (length pts)" unfolding k_def by linarith+
  then have n: "nat (max 0 (int (length pts) + - k)) = length pts - nat k" by linarith
  have "py_slice_from (- k) pts = drop (length pts - nat k) pts"
    using k(1) n by (simp add: py_slice_from_def)
  then show "py_slice_from (- max 1 (min (int (length pts)) (FALLBACK_WINDOW_POINTS e))) pts
           = drop (length pts - fallback_window_size e pts) pts"
    by (simp only: k_def fallback_window_size_def)
  from k show "1 \<le> fallback_window_size e pts" "fallback_window_size e pts \<le> length pts"
    unfolding fallback_window_size_def k_def [symmetric] by linarith+
qed

lemma fallback_forecast_spec:
  assumes "pts \<noteq> []"
  shows "fallback_forecast e pts h
           = spec_fallback (fallback_window_size e pts) pts (real_of_int h)"
proof -
  define k where "k = fallback_window_size e pts"
  define w where "w = drop (length pts - k) pts"
  from fallback_window [OF assms, of e]
  have sl: "py_slice_from (- max 1 (min (int (length pts)) (FALLBACK_WINDOW_POINTS e))) pts = w"
    and k: "1 \<le> k" "k \<le> length pts"
    by (simp_all only: k_def w_def)
  have lw: "length w = k" using k by (simp add: w_def)
  have ts0: "total_seconds d \<le> 0 \<longleftrightarrow> d \<le> 0" for d
    by (simp add: total_seconds_def)
  have a: "fallback_forecast e pts h =
      (if k = 1 then rps (last w)
       else if ts (last w) - ts (hd w) \<le> 0 then rps (last w)
       else max 0 (rps (last w) + (rps (last w) - rps (hd w)) /
              total_seconds (ts (last w) - ts (hd w)) * real_of_int h))"
    unfolding fallback_forecast_def Let_def sl lw ts0 using assms by simp
  have b: "spec_fallback k pts (real_of_int h) =
      (if k = 1 then rps (last w)
       else if ts (last w) - ts (hd w) \<le> 0 then rps (last w)
       else max 0 (rps (last w) + (rps (last w) - rps (hd w)) /
              total_seconds (ts (last w) - ts (hd w)) * real_of_int h))"
    unfolding spec_fallback_def Let_def w_def [symmetric] by (rule refl)
  show ?thesis unfolding k_def [symmetric] a b by (rule refl)
qed

lemma fallback_forecast_nonneg:
  assumes "pts \<noteq> []" and "\<forall>p\<in>set pts. 0 \<le> rps p"
  shows "0 \<le> fallback_forecast e pts h"
proof -
  define k where "k = fallback_window_size e pts"
  define w where "w = drop (length pts - k) pts"
  from fallback_window [OF assms(1), of e] have k: "1 \<le> k" "k \<le> length pts"
    by (simp_all only: k_def)
  then have "w \<noteq> []" using assms(1) by (simp add: w_def)
  then have "last w \<in> set w" by simp
  then have "last w \<in> set pts" unfolding w_def by (rule in_set_dropD)
  with assms(2) have r: "0 \<le> rps (last w)" by blast
  have "0 \<le> spec_fallback k pts (real_of_int h)"
    unfolding spec_fallback_def Let_def w_def [symmetric] using r by simp
  then show ?thesis
    unfolding fallback_forecast_spec [OF assms(1)] k_def .
qed

text \<open>
  C8 (amended). For every non-empty list of points, \<^verbatim>\<open>fallback_forecast\<close> is the
  specification's fallback over the last \<open>max 1 (min (length points) FALLBACK_WINDOW_POINTS)\<close>
  points with the horizon it is given; the forecaster without Prophet calls it with the
  horizon \<open>max 1 FORECAST_SECONDS\<close>; and the result is not negative when no input rate is.
\<close>

theorem fallback_forecast_guarded:
  assumes "pts \<noteq> []"
  shows "fallback_forecast e pts h
           = spec_fallback (fallback_window_size e pts) pts (real_of_int h) \<and>
         forecast e None (forecaster e) pts
           = Some (spec_fallback (fallback_window_size e pts) pts
                     (real_of_int (max 1 (FORECAST_SECONDS e)))) \<and>
         ((\<forall>p\<in>set pts. 0 \<le> rps p) \<longrightarrow> 0 \<le> fallback_forecast e pts h)"
proof -
  have "forecast e None (forecaster e) pts
          = Some (fallback_forecast e pts (max 1 (FORECAST_SECONDS e)))"
    using assms by (simp add: forecast_def forecaster_def Forecaster_init_def)
  then show ?thesis
    using fallback_forecast_spec [OF assms] fallback_forecast_nonneg [OF assms]
    by simp
qed

theorem fallback_forecast_guarded_witness:
  "fallback_forecast default_env two_points 60
     = spec_fallback (fallback_window_size default_env two_points) two_points 60 \<and>
   forecast default_env None (forecaster default_env) two_points
     = Some (spec_fallback (fallback_window_size default_env two_points) two_points
               (real_of_int (max 1 (FORECAST_SECONDS default_env)))) \<and>
   0 \<le> fallback_forecast default_env two_points 60"
  using fallback_forecast_guarded [of two_points default_env 60]
  by (simp add: two_points_def)

text \<open>
  C8 as stated fails: with \<open>FORECAST_SECONDS = 0\<close> the forecaster's horizon is one second, so
  for the rates 10 and 20 one second apart it predicts 30, where the slope times
  \<open>FORECAST_SECONDS\<close> gives 20.
\<close>

theorem fallback_horizon_differs_from_ForecastSeconds:
  "forecast zero_horizon_env None (forecaster zero_horizon_env) two_points = Some 30 \<and>
   spec_fallback (nat (min (int (length two_points)) (FALLBACK_WINDOW_POINTS zero_horizon_env)))
     two_points (real_of_int (FORECAST_SECONDS zero_horizon_env)) = 20"
  by (simp add: zero_horizon_env_def default_env_def two_points_def forecast_def forecaster_def
      Forecaster_init_def fallback_forecast_def py_slice_from_def spec_fallback_def
      total_seconds_def)


section \<open>Properties of the recommendation policy\<close>

lemma overload_spec: "overload e request = spec_overload e request"
  by (auto simp: overload_def spec_overload_def Let_def split: option.split)

lemma target_rps_spec:
  "target_rps e request p cl
     = clamp (spec_target e (spec_overload e request) p cl) (MIN_RPS e) (max_rps e)"
  by (simp add: target_rps_def spec_target_def Let_def isfinite_def overload_spec)

lemma validated_current_rps_limit:
  assumes "validate_current_config c = None"
  shows "\<exists>cl. current_rps_limit c = Inr cl \<and> 0 < cl"
proof (cases "fixed_or_sliding (algorithm c)")
  case True
  with assms obtain l w where "limit c = Some l" "window c = Some w" "0 < l" "0 < w"
    by (auto simp: validate_current_config_def split: if_splits option.splits)
  with True show ?thesis by (simp add: current_rps_limit_def)
next
  case False
  with assms obtain k f where "capacity c = Some k" "fillRate c = Some f" "0 < f"
    by (auto simp: validate_current_config_def ALLOWED_ALGORITHMS_def fixed_or_sliding_def
        split: if_splits option.splits)
  with False show ?thesis by (simp add: current_rps_limit_def)
qed

lemma recommend_config_Inr:
  assumes cl: "current_rps_limit (currentConfig request) = Inr cl"
    and rc: "recommend_config e request predicted history state now = Inr (rec, st')"
  shows "\<exists>d b. desired_algorithm e (currentConfig request) history state now = Inr d \<and>
     configs_equal (currentConfig request)
       (build_response e d (target_rps e request (clamp predicted 0 (max_rps e)) cl)
          (currentConfig request) (Some (py_round3 (clamp predicted 0 (max_rps e))))) = Inr b \<and>
     (if b \<or> (\<not> (d = algorithm (currentConfig request) \<and>
                  change_ratio (target_rps e request (clamp predicted 0 (max_rps e)) cl) cl
                    < MIN_RELATIVE_CHANGE e) \<and>
               \<not> recent_change_block e state now)
      then rec = build_response e d (target_rps e request (clamp predicted 0 (max_rps e)) cl)
                   (currentConfig request) (Some (py_round3 (clamp predicted 0 (max_rps e))))
      else rec = build_response e (algorithm (currentConfig request)) cl
                   (currentConfig request) (Some (py_round3 (clamp predicted 0 (max_rps e))))) \<and>
     (if \<not> b \<and> \<not> (d = algorithm (currentConfig request) \<and>
                  change_ratio (target_rps e request (clamp predicted 0 (max_rps e)) cl) cl
                    < MIN_RELATIVE_CHANGE e) \<and>
               \<not> recent_change_block e state now
      then st' = (if d \<noteq> algorithm (currentConfig request)
                  then state\<lparr>last_change_at := Some now, last_algo_switch_at := Some now\<rparr>
                  else state\<lparr>last_change_at := Some now\<rparr>)
      else st' = state)"
proof -
  define T where "T = target_rps e request (clamp predicted 0 (max_rps e)) cl"
  define pr where "pr = Some (py_round3 (clamp predicted 0 (max_rps e)))"
  from rc cl obtain d where d: "desired_algorithm e (currentConfig request) history state now = Inr d"
    unfolding recommend_config_def Let_def
    by (cases "desired_algorithm e (currentConfig request) history state now") simp_all
  from rc cl d obtain b where
    b: "configs_equal (currentConfig request) (build_response e d T (currentConfig request) pr) = Inr b"
    unfolding recommend_config_def Let_def T_def pr_def
    by (cases "configs_equal (currentConfig request)
          (build_response e d (target_rps e request (clamp predicted 0 (max_rps e)) cl)
          (currentConfig request) (Some (py_round3 (clamp predicted 0 (max_rps e)))))") simp_all
  from rc have "(rec, st') =
     (if b then (build_response e d T (currentConfig request) pr, state)
      else if d = algorithm (currentConfig request) \<and> change_ratio T cl < MIN_RELATIVE_CHANGE e
        then (build_response e (algorithm (currentConfig request)) cl (currentConfig request) pr, state)
      else if recent_change_block e state now
        then (build_response e (algorithm (currentConfig request)) cl (currentConfig request) pr, state)
      else (build_response e d T (currentConfig request) pr,
            if d \<noteq> algorithm (currentConfig request)
            then state\<lparr>last_change_at := Some now, last_algo_switch_at := Some now\<rparr>
            else state\<lparr>last_change_at := Some now\<rparr>))"
    unfolding recommend_config_def Let_def cl d
    using b unfolding T_def pr_def
    by (cases b) (simp_all split: if_splits)
  then have "(if b \<or> (\<not> (d = algorithm (currentConfig request) \<and> change_ratio T cl < MIN_RELATIVE_CHANGE e) \<and>
               \<not> recent_change_block e state now)
      then rec = build_response e d T (currentConfig request) pr
      else rec = build_response e (algorithm (currentConfig request)) cl (currentConfig request) pr) \<and>
     (if \<not> b \<and> \<not> (d = algorithm (currentConfig request) \<and> change_ratio T cl < MIN_RELATIVE_CHANGE e) \<and>
               \<not> recent_change_block e state now
      then st' = (if d \<noteq> algorithm (currentConfig request)
                  then state\<lparr>last_change_at := Some now, last_algo_switch_at := Some now\<rparr>
                  else state\<lparr>last_change_at := Some now\<rparr>)
      else st' = state)"
    by (simp split: if_splits)
  with d b show ?thesis unfolding T_def pr_def by blast
qed

lemma algorithm_r_build_response [simp]: "algorithm_r (build_response e d t c p) = d"
  by (simp add: build_response_def Let_def)



lemma overload_request_target:
  "current_rps_limit (currentConfig overload_request) = Inr 100 \<and>
   target_rps default_env overload_request (clamp 50 0 (max_rps default_env)) 100 = 70"
  by (simp add: overload_request_def current_rps_limit_def fixed_or_sliding_def target_rps_def
      overload_def default_env_def clamp_def max_rps_def isfinite_def)


section \<open>Hysteresis\<close>

lemma recommend_config_Inr_limit:
  assumes "recommend_config e request predicted history state now = Inr x"
  shows "\<exists>cl. current_rps_limit (currentConfig request) = Inr cl"
  using assms unfolding recommend_config_def Let_def
  by (cases "current_rps_limit (currentConfig request)") simp_all

lemma recommend_config_state:
  assumes rc: "recommend_config e request predicted history state now = Inr (rec, st')"
  shows "if suppressed e request predicted history state now then st' = state
         else st' = (if algorithm_r rec \<noteq> algorithm (currentConfig request)
                     then state\<lparr>last_change_at := Some now, last_algo_switch_at := Some now\<rparr>
                     else state\<lparr>last_change_at := Some now\<rparr>) \<and>
              \<not> recent_change_block e state now"
proof -
  from recommend_config_Inr_limit [OF rc]
  obtain cl where cl: "current_rps_limit (currentConfig request) = Inr cl" by blast
  from recommend_config_Inr [OF cl rc]
  obtain d b where d: "desired_algorithm e (currentConfig request) history state now = Inr d"
    and b: "configs_equal (currentConfig request)
       (build_response e d (target_rps e request (clamp predicted 0 (max_rps e)) cl)
          (currentConfig request) (Some (py_round3 (clamp predicted 0 (max_rps e))))) = Inr b"
    and r: "if b \<or> (\<not> (d = algorithm (currentConfig request) \<and>
                  change_ratio (target_rps e request (clamp predicted 0 (max_rps e)) cl) cl
                    < MIN_RELATIVE_CHANGE e) \<and>
               \<not> recent_change_block e state now)
      then rec = build_response e d (target_rps e request (clamp predicted 0 (max_rps e)) cl)
                   (currentConfig request) (Some (py_round3 (clamp predicted 0 (max_rps e))))
      else rec = build_response e (algorithm (currentConfig request)) cl
                   (currentConfig request) (Some (py_round3 (clamp predicted 0 (max_rps e))))"
    and s: "if \<not> b \<and> \<not> (d = algorithm (currentConfig request) \<and>
                  change_ratio (target_rps e request (clamp predicted 0 (max_rps e)) cl) cl
                    < MIN_RELATIVE_CHANGE e) \<and>
               \<not> recent_change_block e state now
      then st' = (if d \<noteq> algorithm (currentConfig request)
                  then state\<lparr>last_change_at := Some now, last_algo_switch_at := Some now\<rparr>
                  else state\<lparr>last_change_at := Some now\<rparr>)
      else st' = state"
    by blast
  have sup: "suppressed e request predicted history state now \<longleftrightarrow>
      b \<or> (d = algorithm (currentConfig request) \<and>
           change_ratio (target_rps e request (clamp predicted 0 (max_rps e)) cl) cl
             < MIN_RELATIVE_CHANGE e) \<or> recent_change_block e state now"
    by (simp add: suppressed_def cl d b Let_def)
  show ?thesis
  proof (cases "suppressed e request predicted history state now")
    case True
    with sup s show ?thesis by (simp split: if_splits)
  next
    case False
    with sup have nb: "\<not> b" and nr: "\<not> recent_change_block e state now"
      and nc: "\<not> (d = algorithm (currentConfig request) \<and>
           change_ratio (target_rps e request (clamp predicted 0 (max_rps e)) cl) cl
             < MIN_RELATIVE_CHANGE e)" by blast+
    from r nb nr nc have "algorithm_r rec = d" by simp
    with s nb nr nc False show ?thesis by simp
  qed
qed

lemma accepted_changes_apart:
  "successively (far_enough e) (previous_change state @ accepted_changes e state steps)"
proof (induction steps arbitrary: state)
  case Nil
  then show ?case by (simp add: previous_change_def split: option.split)
next
  case (Cons step steps)
  obtain request predicted history now where step: "step = (request, predicted, history, now)"
    by (cases step)
  show ?case
  proof (cases "recommend_config e request predicted history state now")
    case (Inl err)
    with Cons.IH [of state] step show ?thesis by simp
  next
    case (Inr res)
    obtain rec st' where res: "res = (rec, st')" by (cases res)
    note st = recommend_config_state [OF Inr [unfolded res]]
    show ?thesis
    proof (cases "suppressed e request predicted history state now")
      case True
      with st have "st' = state" by simp
      with Cons.IH [of state] step Inr res True show ?thesis by simp
    next
      case False
      with st have lc: "last_change_at st' = Some now"
        and nr: "\<not> recent_change_block e state now"
        by (auto split: if_splits)
      from Cons.IH [of st'] lc
      have tail: "successively (far_enough e) (now # accepted_changes e st' steps)"
        by (simp add: previous_change_def)
      have "successively (far_enough e) (previous_change state @ now # accepted_changes e st' steps)"
      proof (cases "last_change_at state")
        case None
        with tail show ?thesis by (simp add: previous_change_def)
      next
        case (Some t)
        with nr have "far_enough e t now"
          by (simp add: recent_change_block_def far_enough_def)
        with tail Some show ?thesis by (simp add: previous_change_def)
      qed
      with step Inr res False show ?thesis by simp
    qed
  qed
qed

lemma far_enough_transp:
  assumes "0 \<le> MIN_CHANGE_INTERVAL_SECONDS e"
  shows "transp (far_enough e)"
proof (rule transpI)
  fix a b c
  assume "far_enough e a b" "far_enough e b c"
  moreover have "total_seconds (c - a) = total_seconds (b - a) + total_seconds (c - b)"
    by (simp add: total_seconds_def diff_divide_distrib[symmetric] add_divide_distrib[symmetric])
  moreover from assms have "0 \<le> real_of_int (MIN_CHANGE_INTERVAL_SECONDS e)" by simp
  ultimately show "far_enough e a c"
    unfolding far_enough_def by linarith
qed

lemma accepted_changes_pairwise_apart:
  assumes "0 \<le> MIN_CHANGE_INTERVAL_SECONDS e"
  shows "sorted_wrt (far_enough e) (previous_change state @ accepted_changes e state steps)"
  using accepted_changes_apart [of e state steps]
  by (simp add: successively_conv_sorted_wrt [OF far_enough_transp [OF assms]])

text \<open>
  C5. When \<^verbatim>\<open>recommend_config\<close> returns, either the call was suppressed and the state is
  unchanged, or \<open>last_change_at\<close> is now \<open>now\<close>, and it was unset before or is at least
  \<open>MIN_CHANGE_INTERVAL_SECONDS\<close> older than \<open>now\<close>; \<open>last_algo_switch_at\<close> is then unchanged
  or \<open>now\<close>. Over any sequence of calls, each accepted change is at least
  \<open>MIN_CHANGE_INTERVAL_SECONDS\<close> after the one before it, and, the interval not being
  negative, after every earlier one.
\<close>

theorem change_interval_respected:
  "(\<forall>rec st'. recommend_config e request predicted history state now = Inr (rec, st') \<longrightarrow>
      (if suppressed e request predicted history state now then st' = state
       else last_change_at st' = Some now \<and>
            (case last_change_at state of None \<Rightarrow> True | Some t \<Rightarrow> far_enough e t now) \<and>
            (last_algo_switch_at st' = last_algo_switch_at state \<or>
             last_algo_switch_at st' = Some now))) \<and>
   successively (far_enough e) (previous_change state @ accepted_changes e state steps) \<and>
   (0 \<le> MIN_CHANGE_INTERVAL_SECONDS e \<longrightarrow>
      sorted_wrt (far_enough e) (previous_change state @ accepted_changes e state steps))"
proof -
  have "if suppressed e request predicted history state now then st' = state
       else last_change_at st' = Some now \<and>
            (case last_change_at state of None \<Rightarrow> True | Some t \<Rightarrow> far_enough e t now) \<and>
            (last_algo_switch_at st' = last_algo_switch_at state \<or>
             last_algo_switch_at st' = Some now)"
    if rc: "recommend_config e request predicted history state now = Inr (rec, st')" for rec st'
  proof (cases "suppressed e request predicted history state now")
    case True
    with recommend_config_state [OF rc] show ?thesis by simp
  next
    case False
    with recommend_config_state [OF rc]
    have st: "st' = (if algorithm_r rec \<noteq> algorithm (currentConfig request)
                     then state\<lparr>last_change_at := Some now, last_algo_switch_at := Some now\<rparr>
                     else state\<lparr>last_change_at := Some now\<rparr>)"
      and nr: "\<not> recent_change_block e state now" by simp_all
    from nr have "case last_change_at state of None \<Rightarrow> True | Some t \<Rightarrow> far_enough e t now"
      by (simp add: recent_change_block_def far_enough_def split: option.splits)
    with st False show ?thesis by (simp split: if_splits)
  qed
  with accepted_changes_apart accepted_changes_pairwise_apart show ?thesis by blast
qed


lemmas policy_eval =
  recommend_config_def current_rps_limit_def fixed_or_sliding_def overload_request_def
  default_env_def clamp_def max_rps_def target_rps_def overload_def isfinite_def
  desired_algorithm_def algo_switch_allowed_def build_response_def py_round3_def
  round_half_even_def configs_equal_def py_int_def change_ratio_def recent_change_block_def
  RecommendationState_init_def total_seconds_def

lemma overload_request_first:
  "recommend_config default_env overload_request 50 [] RecommendationState_init 0
     = Inr (decreased_response, changed_state)"
  by (simp add: policy_eval decreased_response_def changed_state_def)

lemma overload_request_first_accepted:
  "\<not> suppressed default_env overload_request 50 [] RecommendationState_init 0"
  by (simp add: suppressed_def policy_eval)

theorem change_interval_respected_witness:
  "recommend_config default_env overload_request 50 [] RecommendationState_init 0
     = Inr (decreased_response, changed_state) \<and>
   \<not> suppressed default_env overload_request 50 [] RecommendationState_init 0 \<and>
   last_change_at changed_state = Some 0 \<and>
   last_change_at RecommendationState_init = None \<and>
   successively (far_enough default_env)
     (previous_change RecommendationState_init @
      accepted_changes default_env RecommendationState_init
        [(overload_request, 50, [], 0), (overload_request, 50, [], 10000000)]) \<and>
   0 \<le> MIN_CHANGE_INTERVAL_SECONDS default_env \<and>
   sorted_wrt (far_enough default_env)
     (previous_change RecommendationState_init @
      accepted_changes default_env RecommendationState_init
        [(overload_request, 50, [], 0), (overload_request, 50, [], 10000000)])"
  using change_interval_respected [of default_env overload_request 50 "[]"
      RecommendationState_init 0
      "[(overload_request, 50, [], 0), (overload_request, 50, [], 10000000)]"]
    overload_request_first overload_request_first_accepted
  by (simp add: RecommendationState_init_def default_env_def)

section \<open>The last good configuration and recommendation\<close>

lemma handler_keeps_state:
  "snd (request_validation_exception_handler e lib path payload state) = state"
  by (simp add: request_validation_exception_handler_def Let_def split: option.split)

lemma limit_config_cases:
  "(\<exists>err st'. limit_config e lib pr received_at utcnow request (coll, state) = Inl (err, st') \<and>
      last_good_config st' = last_good_config state \<and>
      last_good_recommendation st' = last_good_recommendation state) \<or>
   (\<exists>rec coll' st'. limit_config e lib pr received_at utcnow request (coll, state)
        = Inr (Ok200 rec ''invalid_config'', coll', st') \<and>
      validate_current_config (currentConfig request) \<noteq> None \<and>
      last_good_config st' = last_good_config state \<and>
      last_good_recommendation st' = last_good_recommendation state) \<or>
   (\<exists>rec coll' st' p h s1 s2. limit_config e lib pr received_at utcnow request (coll, state)
        = Inr (Ok200 rec ''ok'', coll', st') \<and>
      validate_current_config (currentConfig request) = None \<and>
      recommend_config e request p h s1 received_at = Inr (rec, s2) \<and>
      last_good_config s1 = last_good_config state \<and>
      last_good_recommendation s1 = last_good_recommendation state \<and>
      last_good_config st' = Some (currentConfig request) \<and>
      last_good_recommendation st' = Some rec)"
proof (cases "parse_timestamp lib utcnow (timestamp request)")
  case (Inl err)
  then show ?thesis by (simp add: limit_config_def)
next
  case ts: (Inr sample_ts)
  show ?thesis
  proof (cases "add_point coll sample_ts (observedRps request)")
    case (Inl err)
    with ts show ?thesis by (simp add: limit_config_def)
  next
    case c1: (Inr coll1)
    define predicted where "predicted = clamp (case forecast e pr (forecaster e) (snapshot coll1) of
                                   None \<Rightarrow> observedRps request | Some y \<Rightarrow> y) 0 (max_rps e)"
    define state1 where "state1 = state\<lparr>last_predicted_rps := Some (py_round3 predicted)\<rparr>"
    show ?thesis
    proof (cases "validate_current_config (currentConfig request)")
      case (Some msg)
      with ts c1 show ?thesis
        by (simp add: limit_config_def Let_def)
    next
      case None
      show ?thesis
      proof (cases "recommend_config e request predicted (snapshot coll1) state1 received_at")
        case (Inl err)
        with ts c1 None show ?thesis
          by (simp add: limit_config_def Let_def predicted_def state1_def)
      next
        case (Inr res)
        obtain rec st2 where res: "res = (rec, st2)" by (cases res)
        have "limit_config e lib pr received_at utcnow request (coll, state)
          = Inr (Ok200 rec ''ok'', coll1,
                 st2\<lparr>last_good_recommendation := Some rec,
                     last_good_config := Some (currentConfig request)\<rparr>)"
          using ts c1 None Inr res
          by (simp add: limit_config_def Let_def predicted_def state1_def)
        moreover have "last_good_config state1 = last_good_config state"
          "last_good_recommendation state1 = last_good_recommendation state"
          by (simp_all add: state1_def)
        ultimately show ?thesis
          using None Inr res by (intro disjI2) force
      qed
    qed
  qed
qed

lemma first_sample:
  "add_point (collector default_env) 0 50
     = Inr ((collector default_env)\<lparr>points := [\<lparr>ts = 0, rps = 50\<rparr>]\<rparr>)"
  by (simp add: add_point_def trim_def collector_def DataCollector_init_def default_env_def
      timedelta_seconds_def)

lemma first_forecast:
  "forecast default_env None (forecaster default_env) [\<lparr>ts = 0, rps = 50\<rparr>] = Some 50"
  by (simp add: forecast_def fallback_forecast_def py_slice_from_def default_env_def)

lemma first_recommendation:
  "recommend_config default_env overload_request 50 [\<lparr>ts = 0, rps = 50\<rparr>]
     \<lparr>last_change_at = None, last_algo_switch_at = None, last_good_recommendation = None,
      last_good_config = None, last_predicted_rps = Some 50\<rparr> 0
     = Inr (decreased_response,
            \<lparr>last_change_at = Some 0, last_algo_switch_at = None,
             last_good_recommendation = None, last_good_config = None,
             last_predicted_rps = Some 50\<rparr>)"
  by (simp add: policy_eval decreased_response_def)

lemma overload_request_valid:
  "validate_current_config (currentConfig overload_request) = None"
  by (simp add: overload_request_def validate_current_config_def ALLOWED_ALGORITHMS_def
      fixed_or_sliding_def)

lemma limit_config_overload_request:
  "limit_config default_env strict_lib None 0 0 overload_request
     (collector default_env, RecommendationState_init)
   = Inr (Ok200 decreased_response ''ok'',
          (collector default_env)\<lparr>points := [\<lparr>ts = 0, rps = 50\<rparr>]\<rparr>,
          after_overload_state)"
proof -
  have t: "parse_timestamp strict_lib 0 (timestamp overload_request) = Inr 0"
    by (simp add: parse_timestamp_def overload_request_def)
  have o: "observedRps overload_request = 50" by (simp add: overload_request_def)
  have c: "clamp 50 0 (max_rps default_env) = 50"
    by (simp add: clamp_def max_rps_def default_env_def)
  have r: "py_round3 50 = 50" by (simp add: py_round3_def round_half_even_def)
  show ?thesis
    unfolding limit_config_def Let_def fst_conv snd_conv t o
    by (simp add: first_sample snapshot_def first_forecast c r overload_request_valid
        first_recommendation after_overload_state_def RecommendationState_init_def)
qed

text \<open>
  C7. A call of \<^verbatim>\<open>limit_config\<close> ends in one of three ways: with an exception, or in the
  invalid-config branch, both leaving \<open>last_good_config\<close> and \<open>last_good_recommendation\<close> as
  they were; or on the happy path, where \<^verbatim>\<open>recommend_config\<close> has returned the
  recommendation from a state with the old values, and the two fields become the request's
  configuration and that recommendation. The malformed-body handler returns the state as
  it received it.
\<close>

theorem last_good_assigned_on_happy_path_only:
  "((\<exists>err st'. limit_config e lib pr received_at utcnow request (coll, state) = Inl (err, st') \<and>
      last_good_config st' = last_good_config state \<and>
      last_good_recommendation st' = last_good_recommendation state) \<or>
   (\<exists>rec coll' st'. limit_config e lib pr received_at utcnow request (coll, state)
        = Inr (Ok200 rec ''invalid_config'', coll', st') \<and>
      validate_current_config (currentConfig request) \<noteq> None \<and>
      last_good_config st' = last_good_config state \<and>
      last_good_recommendation st' = last_good_recommendation state) \<or>
   (\<exists>rec coll' st' p h s1 s2. limit_config e lib pr received_at utcnow request (coll, state)
        = Inr (Ok200 rec ''ok'', coll', st') \<and>
      validate_current_config (currentConfig request) = None \<and>
      recommend_config e request p h s1 received_at = Inr (rec, s2) \<and>
      last_good_config s1 = last_good_config state \<and>
      last_good_recommendation s1 = last_good_recommendation state \<and>
      last_good_config st' = Some (currentConfig request) \<and>
      last_good_recommendation st' = Some rec)) \<and>
   snd (request_validation_exception_handler e lib path payload hstate) = hstate"
  using limit_config_cases [of e lib pr received_at utcnow request coll state]
    handler_keeps_state [of e lib path payload hstate]
  by (rule conjI)

theorem last_good_assigned_on_happy_path_only_witness:
  "limit_config default_env strict_lib None 0 0 overload_request
     (collector default_env, RecommendationState_init)
   = Inr (Ok200 decreased_response ''ok'',
          (collector default_env)\<lparr>points := [\<lparr>ts = 0, rps = 50\<rparr>]\<rparr>,
          after_overload_state) \<and>
   validate_current_config (currentConfig overload_request) = None \<and>
   last_good_config after_overload_state = Some (currentConfig overload_request) \<and>
   last_good_recommendation after_overload_state = Some decreased_response \<and>
   snd (request_validation_exception_handler default_env strict_lib ''/v1/limit-config''
          (Some garbage) after_overload_state) = after_overload_state"
  using last_good_assigned_on_happy_path_only [of default_env strict_lib None 0 0
      overload_request "collector default_env" RecommendationState_init
      "''/v1/limit-config''" "Some garbage" after_overload_state]
    limit_config_overload_request
  by auto

section \<open>The reply to a malformed body\<close>

lemma coerce_garbage: "coerce_current_config lib (Some garbage) fb = fb"
  by (simp add: coerce_current_config_def garbage_def)

lemma coerce_fallback_or_valid:
  "coerce_current_config lib payload fb = fb \<or>
   (\<exists>c. coerce_current_config lib payload fb = Some c \<and> validate_current_config c = None)"
  by (auto simp: coerce_current_config_def Let_def split: option.splits json.splits)

lemma handler_reply:
  "request_validation_exception_handler e lib ''/v1/limit-config'' payload state =
     (Ok200 (case coerce_current_config lib payload (last_good_config state) of
               Some c \<Rightarrow> keep_current_response e c (last_predicted_rps state)
             | None \<Rightarrow>
                 (case last_good_recommendation state of
                    Some r \<Rightarrow> r
                  | None \<Rightarrow> keep_current_response e (default_fallback_config e)
                              (last_predicted_rps state)))
        ''validation_error'', state)"
  by (simp add: request_validation_exception_handler_def Let_def split: option.split)


lemma kept_response_eq:
  "keep_current_response default_env (currentConfig overload_request) (Some 50) = kept_response"
  by (simp add: keep_current_response_def overload_request_def kept_response_def py_int_def
      default_env_def)



section \<open>Timestamps out of range\<close>

text \<open>
  C9 fails on the code: a number that does not fit \<^verbatim>\<open>time_t\<close>, or whose year is beyond
  9999, makes \<^verbatim>\<open>datetime.fromtimestamp\<close> raise in the numeric branch, which has no handler;
  in the string branch only ValueError is caught, so the string \<^verbatim>\<open>1e30\<close> raises
  OverflowError as well. An absent timestamp gives the clock.
\<close>

theorem parse_timestamp_raises_out_of_range:
  "parse_timestamp lib utcnow (Some (TsNum (10 ^ 30))) = Inl OverflowError \<and>
   parse_timestamp lib utcnow (Some (TsNum (10 ^ 12))) = Inl ValueError \<and>
   parse_timestamp exponent_lib utcnow (Some (TsStr ''1e30'')) = Inl OverflowError \<and>
   parse_timestamp lib utcnow None = Inr utcnow"
  by (simp add: parse_timestamp_def datetime_fromtimestamp_def exponent_lib_def replace_Z_def)

section \<open>Rebuilding the current configuration\<close>

lemma clamp_within:
  assumes "lo \<le> v" and "0 < MAX_RPS e \<longrightarrow> v \<le> MAX_RPS e"
  shows "clamp v lo (max_rps e) = v"
  using assms by (simp add: clamp_def max_rps_def)

lemma capacity_three_way:
  fixes f :: real and a :: int
  shows "(if real_of_int a < f then \<lceil>f\<rceil> else a) = max a \<lceil>f\<rceil>"
proof (cases "real_of_int a < f")
  case True
  then have "a < \<lceil>f\<rceil>" by (simp add: less_ceiling_iff)
  with True show ?thesis by simp
next
  case False
  then have "f \<le> real_of_int a" by simp
  then have "\<lceil>f\<rceil> \<le> a" by (simp add: ceiling_le_iff)
  with False show ?thesis by simp
qed

lemma build_response_token:
  assumes "\<not> fixed_or_sliding a" and "MIN_RPS e \<le> f" and "0 < MAX_RPS e \<longrightarrow> f \<le> MAX_RPS e"
  shows "build_response e a f c p =
     \<lparr>algorithm_r = a, limit_r = None, window_r = None,
      capacity_r = Some (spec_capacity e f), fillRate_r = Some (py_round3 f),
      predictedRps = p, validFor = Some (FORECAST_SECONDS e)\<rparr>"
  using assms(1)
  by (simp add: build_response_def Let_def clamp_within [OF assms(2,3)] spec_capacity_def
      capacity_three_way)

lemma build_response_fixed_integer:
  assumes fs: "fixed_or_sliding a" and w: "0 < w" and win: "window c = Some w"
    and lo: "MIN_RPS e \<le> real_of_int n / real_of_int w"
    and hi: "0 < MAX_RPS e \<longrightarrow> real_of_int n / real_of_int w \<le> MAX_RPS e"
  shows "build_response e a (real_of_int n / real_of_int w) c p =
     \<lparr>algorithm_r = a, limit_r = Some n, window_r = Some w,
      capacity_r = None, fillRate_r = None,
      predictedRps = p, validFor = Some (FORECAST_SECONDS e)\<rparr>"
proof -
  from w have w0: "0 < real_of_int w" by simp
  have prod: "real_of_int n / real_of_int w * real_of_int w = real_of_int n"
    using w0 by simp
  have l0: "\<lceil>real_of_int n / real_of_int w * real_of_int w\<rceil> = n"
    unfolding prod by simp
  from lo w0 have "MIN_RPS e * real_of_int w \<le> real_of_int n"
    by (simp add: pos_le_divide_eq)
  then have mn: "\<lceil>MIN_RPS e * real_of_int w\<rceil> \<le> n" by (simp add: ceiling_le_iff)
  have mx: "n \<le> \<lfloor>MAX_RPS e * real_of_int w\<rfloor>" if "0 < MAX_RPS e"
  proof -
    from hi that w0 have "real_of_int n \<le> MAX_RPS e * real_of_int w"
      by (simp add: pos_divide_le_eq)
    then show ?thesis by (simp add: le_floor_iff)
  qed
  have "(case max_rps e of None \<Rightarrow> max n \<lceil>MIN_RPS e * real_of_int w\<rceil>
         | Some m \<Rightarrow> min (max n \<lceil>MIN_RPS e * real_of_int w\<rceil>) \<lfloor>m * real_of_int w\<rfloor>) = n"
    using mn mx by (simp add: max_rps_def)
  moreover have win': "(case window c of None \<Rightarrow> DEFAULT_WINDOW_SECONDS e
                  | Some w0 \<Rightarrow> if w0 = 0 then DEFAULT_WINDOW_SECONDS e else w0) = w"
    using w win by simp
  ultimately show ?thesis
    using fs unfolding build_response_def Let_def win' l0
    by simp
qed


lemma steady_config_facts:
  "validate_current_config steady_config = None"
  "current_rps_limit steady_config = Inr 120"
  "fixed_or_sliding (algorithm steady_config)"
  "limit steady_config = Some (real_of_int 120)"
  by (simp_all add: steady_config_def validate_current_config_def ALLOWED_ALGORITHMS_def
      fixed_or_sliding_def current_rps_limit_def)



section \<open>A reply that does not validate\<close>

lemma half_step_sample: "add_point (collector default_env) 0 1 = Inr one_sample"
  by (simp add: add_point_def trim_def collector_def DataCollector_init_def default_env_def
      timedelta_seconds_def one_sample_def)

lemma half_step_forecast:
  "forecast default_env None (forecaster default_env) [\<lparr>ts = 0, rps = 1\<rparr>] = Some 1"
  by (simp add: forecast_def fallback_forecast_def py_slice_from_def default_env_def)

lemma half_step_recommendation:
  "recommend_config default_env half_limit_request 1 [\<lparr>ts = 0, rps = 1\<rparr>]
     \<lparr>last_change_at = None, last_algo_switch_at = None, last_good_recommendation = None,
      last_good_config = None, last_predicted_rps = Some 1\<rparr> 0
     = Inr (raised_response,
            \<lparr>last_change_at = Some 0, last_algo_switch_at = None,
             last_good_recommendation = None, last_good_config = None,
             last_predicted_rps = Some 1\<rparr>)"
  by (simp add: recommend_config_def current_rps_limit_def fixed_or_sliding_def
      half_limit_request_def half_limit_config_def
      default_env_def clamp_def max_rps_def target_rps_def overload_def isfinite_def
      desired_algorithm_def algo_switch_allowed_def build_response_def py_round3_def
      round_half_even_def configs_equal_def py_int_def change_ratio_def recent_change_block_def
      raised_response_def)

lemma half_limit_step:
  "limit_config default_env strict_lib None 0 0 half_limit_request
     (collector default_env, RecommendationState_init)
   = Inr (Ok200 raised_response ''ok'', one_sample, after_half_limit_state)"
proof -
  have t: "parse_timestamp strict_lib 0 (timestamp half_limit_request) = Inr 0"
    by (simp add: parse_timestamp_def half_limit_request_def)
  have o: "observedRps half_limit_request = 1" by (simp add: half_limit_request_def)
  have cc: "currentConfig half_limit_request = half_limit_config"
    by (simp add: half_limit_request_def)
  have v: "validate_current_config half_limit_config = None"
    by (simp add: half_limit_config_def validate_current_config_def ALLOWED_ALGORITHMS_def
        fixed_or_sliding_def)
  have c: "clamp 1 0 (max_rps default_env) = 1"
    by (simp add: clamp_def max_rps_def default_env_def)
  have r: "py_round3 1 = 1" by (simp add: py_round3_def round_half_even_def)
  have s: "snapshot one_sample = [\<lparr>ts = 0, rps = 1\<rparr>]"
    by (simp add: snapshot_def one_sample_def)
  show ?thesis
    unfolding limit_config_def Let_def fst_conv snd_conv t o
    by (simp add: half_step_sample s half_step_forecast c r cc v
        half_step_recommendation after_half_limit_state_def RecommendationState_init_def)
qed

lemma zero_step_sample: "add_point one_sample 1000000 1 = Inr two_samples"
  by (simp add: add_point_def trim_def collector_def DataCollector_init_def default_env_def
      timedelta_seconds_def one_sample_def two_samples_def)

lemma zero_step_forecast:
  "forecast default_env None (forecaster default_env)
     [\<lparr>ts = 0, rps = 1\<rparr>, \<lparr>ts = 1000000, rps = 1\<rparr>] = Some 1"
  by (simp add: forecast_def fallback_forecast_def py_slice_from_def default_env_def
      forecaster_def Forecaster_init_def total_seconds_def)

lemma zero_limit_step:
  "limit_config default_env strict_lib None 1000000 1000000 zero_limit_request
     (one_sample, after_half_limit_state)
   = Inr (Ok200 truncated_response ''invalid_config'', two_samples, after_half_limit_state)"
proof -
  have t: "parse_timestamp strict_lib 1000000 (timestamp zero_limit_request) = Inr 1000000"
    by (simp add: parse_timestamp_def zero_limit_request_def)
  have o: "observedRps zero_limit_request = 1" by (simp add: zero_limit_request_def)
  have v: "validate_current_config (currentConfig zero_limit_request)
             = Some ''limit/window must be positive''"
    by (simp add: zero_limit_request_def validate_current_config_def ALLOWED_ALGORITHMS_def
        fixed_or_sliding_def)
  have c: "clamp 1 0 (max_rps default_env) = 1"
    by (simp add: clamp_def max_rps_def default_env_def)
  have r: "py_round3 1 = 1" by (simp add: py_round3_def round_half_even_def)
  have s: "snapshot two_samples = [\<lparr>ts = 0, rps = 1\<rparr>, \<lparr>ts = 1000000, rps = 1\<rparr>]"
    by (simp add: snapshot_def two_samples_def)
  have k: "keep_current_response default_env half_limit_config (Some 1) = truncated_response"
    by (simp add: keep_current_response_def half_limit_config_def truncated_response_def
        py_int_def default_env_def)
  show ?thesis
    unfolding limit_config_def Let_def fst_conv snd_conv t o
    by (simp add: zero_step_sample s zero_step_forecast c r v k after_half_limit_state_def)
qed

text \<open>
  C1 fails on the code. A request whose configuration \<open>fixed\<close>, limit 0.5, window 1 satisfies
  the field bounds is served on the happy path and becomes the last good configuration.
  The next request has an invalid configuration; the reply keeps the last good one with
  its limit truncated to 0, and read back as a configuration it does not pass
  \<^verbatim>\<open>validate_current_config\<close>.
\<close>

theorem invalid_config_reply_fails_validation:
  "LimitConfigIn_fields half_limit_config \<and>
   limit_config default_env strict_lib None 0 0 half_limit_request
     (collector default_env, RecommendationState_init)
   = Inr (Ok200 raised_response ''ok'', one_sample, after_half_limit_state) \<and>
   limit_config default_env strict_lib None 1000000 1000000 zero_limit_request
     (one_sample, after_half_limit_state)
   = Inr (Ok200 truncated_response ''invalid_config'', two_samples, after_half_limit_state) \<and>
   validate_current_config (as_incoming truncated_response)
     = Some ''limit/window must be positive''"
proof -
  have "LimitConfigIn_fields half_limit_config"
    by (simp add: LimitConfigIn_fields_def half_limit_config_def)
  moreover have "validate_current_config (as_incoming truncated_response)
     = Some ''limit/window must be positive''"
    by (simp add: truncated_response_def as_incoming_def validate_current_config_def
        ALLOWED_ALGORITHMS_def fixed_or_sliding_def)
  ultimately show ?thesis using half_limit_step zero_limit_step by simp
qed

end
